theory Spec2Isabelle
  imports Complex_Main
begin

section \<open>Techno-economic model of a small steam plant (economic\_analysis.py)\<close>

text \<open>
  The class \<open>economic_analysis\<close> holds cost correlations, a loan and a depreciation
  generator, the payback counter and \<open>execute\<close>, which assembles the 20-year ledger.

  Numbers: Python floats are modelled as \<^typ>\<open>real\<close> (exact arithmetic, no rounding, no
  NaN or infinity), Python ints as \<^typ>\<open>int\<close>. A statement "within floating tolerance"
  therefore becomes an exact equation here. A failed \<open>assert\<close> is the error value
  \<open>AssertionError\<close>; numpy's refusal to stack rows of different lengths is \<open>ValueError\<close>, and \<open>int\<close> of a
  complex number is \<open>TypeError\<close>.

  Exact arithmetic differs from the floats where a rounded value decides a test or a
  truncation: the loop of \<open>depreciation\<close> compares rounded remainders (the number of
  entries can differ by one, as at rate 0.05, and a positive rate too small to change
  \<open>prev = 1\<close> never leaves the loop), and \<open>int(...)\<close> truncates the rounded product (the
  cost can differ by one unit, as for \<open>boiler_correlation(41000, 20)\<close>).
\<close>

datatype error = AssertionError | ValueError | TypeError

subsection \<open>Payback (lines 163-172)\<close>

text \<open>
  \<open>years\<close> starts at 1; every negative entry adds one, the first entry that is
  \<open>\<ge> 0\<close> leaves the loop. The two \<open>if\<close>s of the loop body are kept as they are.
\<close>

fun payback_loop :: "real list \<Rightarrow> int \<Rightarrow> int" where
  "payback_loop [] years = years"
| "payback_loop (cash # rest) years =
     (let years' = (if cash < 0 then years + 1 else years)
      in if cash \<ge> 0 then years' else payback_loop rest years')"

definition payback :: "real list \<Rightarrow> int" where
  "payback cash_flow = payback_loop cash_flow 1"

subsection \<open>Loan (lines 89-103)\<close>

text \<open>
  Modelled from the spec: \<open>pmt\<close>, \<open>ipmt\<close> and \<open>ppmt\<close> are functions of the third-party
  package \<open>numpy_financial\<close>, which is not under \<open>src/\<close>. The specification (4.3) describes
  them: the fixed annual payment by the standard annuity formula, then for each period the
  interest on the remaining balance, principal = payment - interest, and the balance reduced
  by the principal. The sign convention is the package's: money paid out is negative for a
  positive principal, as lines 227 and 233 rely on (the interest row is added to the sales
  row in EBT, the principal row is added to the cash flow). \<open>balance rate payment pv n\<close> is
  the balance still owed after \<open>n\<close> payments. \<open>loan\<close> calls them with the default future
  value 0 and payments at the end of each period.
\<close>

definition pmt :: "real \<Rightarrow> nat \<Rightarrow> real \<Rightarrow> real" where
  "pmt rate nper pv =
     (if rate = 0 then - (pv / real nper)
      else - (pv * (1 + rate) ^ nper * rate / ((1 + rate) ^ nper - 1)))"

fun balance :: "real \<Rightarrow> real \<Rightarrow> real \<Rightarrow> nat \<Rightarrow> real" where
  "balance rate payment pv 0 = pv"
| "balance rate payment pv (Suc n) = balance rate payment pv n * (1 + rate) + payment"

definition ipmt :: "real \<Rightarrow> nat \<Rightarrow> nat \<Rightarrow> real \<Rightarrow> real" where
  "ipmt rate per nper pv = - (balance rate (pmt rate nper pv) pv (per - 1) * rate)"

definition ppmt :: "real \<Rightarrow> nat \<Rightarrow> nat \<Rightarrow> real \<Rightarrow> real" where
  "ppmt rate per nper pv = pmt rate nper pv - ipmt rate per nper pv"

text \<open>
  \<open>loan\<close> itself is under \<open>src/\<close>: three assertions, then the payment and the two series
  for the periods \<open>np.arange(years) + 1\<close>, that is \<open>1, ..., years\<close>.
\<close>

definition loan :: "real \<Rightarrow> real \<Rightarrow> int \<Rightarrow> error + real \<times> real list \<times> real list" where
  "loan quantity interest years =
     (if \<not> quantity > 0 then Inl AssertionError
      else if \<not> (interest \<ge> 0 \<and> interest \<le> 1) then Inl AssertionError
      else if \<not> years > 1 then Inl AssertionError
      else
        let loan_payment = pmt interest (nat years) quantity;
            loan_interest = map (\<lambda>per. ipmt interest per (nat years) quantity)
                              [1..<Suc (nat years)];
            loan_principal = map (\<lambda>per. ppmt interest per (nat years) quantity)
                               [1..<Suc (nat years)]
        in Inr (loan_payment, loan_interest, loan_principal))"

subsection \<open>The cash-flow ledger (lines 186-237 of \<open>execute\<close>)\<close>

text \<open>
  The operating assumptions are local constants of \<open>execute\<close>.
\<close>

definition capacity_factor :: real where
  "capacity_factor = 0.9"

definition water :: real where
  "water = 1.29 * 10 * 8760 * capacity_factor"

definition salaries :: real where
  "salaries = 4 * 3 * 30000"

definition sales :: real where
  "sales = 1500 * 0.05 * 8760 * capacity_factor"

definition years :: nat where
  "years = 20"

text \<open>
  \<open>np.hstack(([0], xs, [0 for i in range(years - 1 - len(xs))]))\<close>: a leading zero for
  year 0, the series, and zeros up to the horizon. A series longer than \<open>years - 1\<close> gets
  no padding (the range is empty) and the row is then longer than the horizon.
\<close>

definition year_row :: "real list \<Rightarrow> real list" where
  "year_row xs = [0] @ xs @ replicate (years - 1 - length xs) 0"

text \<open>
  The escalation loop (lines 213-225) writes the three operating rows index by index;
  from year 2 on each entry is the previous one times 1.03 (sales, water) or 1.02
  (salaries). The state is the triple of arrays.
\<close>

fun escalation_step ::
  "real list \<times> real list \<times> real list \<Rightarrow> nat \<Rightarrow> real list \<times> real list \<times> real list" where
  "escalation_step (sales_array, water_array, salaries_array) i =
     (if i = 0 then
        (sales_array[i := 0], water_array[i := 0], salaries_array[i := 0])
      else if i = 1 then
        (sales_array[i := sales], water_array[i := -1 * water],
         salaries_array[i := -1 * salaries])
      else
        (sales_array[i := sales_array ! (i - 1) * 1.03],
         water_array[i := water_array ! (i - 1) * 1.03],
         salaries_array[i := salaries_array ! (i - 1) * 1.02]))"

definition escalation_rows :: "real list \<times> real list \<times> real list" where
  "escalation_rows =
     foldl escalation_step (replicate years 0, replicate years 0, replicate years 0) [0..<years]"

text \<open>
  Lines 228-231: \<open>taxes = ebt * -0.3\<close>, then every entry that is \<open>> 0\<close> is overwritten
  with 0.
\<close>

definition clip_step :: "real list \<Rightarrow> nat \<Rightarrow> real list" where
  "clip_step taxes i = (if taxes ! i > 0 then taxes[i := 0] else taxes)"

definition taxes_of :: "real list \<Rightarrow> real list" where
  "taxes_of ebt =
     (let taxes = map (\<lambda>e. e * -0.3) ebt
      in foldl clip_step taxes [0..<length taxes])"

text \<open>\<open>np.cumsum\<close>: the running sum.\<close>

fun cumsum_from :: "real \<Rightarrow> real list \<Rightarrow> real list" where
  "cumsum_from acc [] = []"
| "cumsum_from acc (x # xs) = (acc + x) # cumsum_from (acc + x) xs"

definition cumsum :: "real list \<Rightarrow> real list" where
  "cumsum xs = cumsum_from 0 xs"

text \<open>The rows of the data frame \<open>df\<close>, named as its index names them.\<close>

record ledger =
  Investment :: "real list"
  Sales :: "real list"
  Depreciation :: "real list"
  Loan_principal :: "real list"
  Loan_interest :: "real list"
  Salaries :: "real list"
  Water :: "real list"
  EBT :: "real list"
  Taxes :: "real list"
  EAT :: "real list"
  Cash_Flow :: "real list"
  Cumulative_Cash_Flow :: "real list"

text \<open>Element-wise sum of six rows (\<open>np.vstack(...).sum(axis=0)\<close>) on rows of one length.\<close>

definition sum_rows :: "real list list \<Rightarrow> nat \<Rightarrow> real list" where
  "sum_rows rows n = map (\<lambda>i. sum_list (map (\<lambda>row. row ! i) rows)) [0..<n]"

text \<open>
  \<open>assemble_ledger\<close> is \<open>execute\<close> from line 201 to line 237, with the total capital cost
  and the loan and depreciation series (computed in lines 178-196) as arguments (\<open>principal_arr\<close> is the source's \<open>principal\<close>).
  \<open>np.vstack\<close> and the element-wise operations of line 233 raise \<open>ValueError\<close> when the
  rows differ in length, which happens when a series has more than \<open>years - 1\<close> entries.
\<close>

definition assemble_ledger ::
  "real \<Rightarrow> real list \<Rightarrow> real list \<Rightarrow> real list \<Rightarrow> error + ledger" where
  "assemble_ledger capex interest principal_arr dep_array =
     (let investment = [-capex * 0.4] @ replicate (years - 1) 0;
          depreciation = year_row dep_array;
          loan_prin = year_row principal_arr;
          loan_int = year_row interest;
          (sales_array, water_array, salaries_array) = escalation_rows
      in if length depreciation \<noteq> years \<or> length loan_int \<noteq> years
            \<or> length loan_prin \<noteq> years
         then Inl ValueError
         else
           let ebt = sum_rows [investment, depreciation, loan_int, sales_array, water_array,
                               salaries_array] years;
               taxes = taxes_of ebt;
               eat = map2 (-) ebt taxes;
               cash_flow = map2 (+) (map2 (-) eat depreciation) loan_prin;
               cumulative_cash_flow = cumsum cash_flow
           in Inr \<lparr>Investment = investment, Sales = sales_array, Depreciation = depreciation,
                    Loan_principal = loan_prin, Loan_interest = loan_int,
                    Salaries = salaries_array, Water = water_array, EBT = ebt, Taxes = taxes,
                    EAT = eat, Cash_Flow = cash_flow,
                    Cumulative_Cash_Flow = cumulative_cash_flow\<rparr>)"

subsection \<open>Depreciation (lines 105-125)\<close>

text \<open>
  The \<open>while True\<close> loop keeps the remaining fraction \<open>prev\<close> (1 at the start) and the list
  built so far. It may run forever, so it is a partial function: \<open>None\<close> is "does not
  return". \<open>depreciation\<close> has three outcomes: \<open>None\<close> (the loop does not return),
  \<open>Some (Inl AssertionError)\<close> (the assertion of line 111 fails) and \<open>Some (Inr series)\<close>.
\<close>

partial_function (option) depreciation_loop :: "real \<Rightarrow> real \<Rightarrow> real list \<Rightarrow> real list option" where
  "depreciation_loop annual_percent prev annual_depreciation =
     (if prev < annual_percent then Some (annual_depreciation @ [prev])
      else depreciation_loop annual_percent (prev - annual_percent)
             (annual_depreciation @ [annual_percent]))"

definition depreciation :: "real \<Rightarrow> real \<Rightarrow> real \<Rightarrow> (error + real list) option" where
  "depreciation annual_percent capex residual_value =
     (if \<not> (annual_percent \<ge> 0 \<and> annual_percent \<le> 1) then Some (Inl AssertionError)
      else case depreciation_loop annual_percent 1 [] of
             None \<Rightarrow> None
           | Some annual_depreciation \<Rightarrow>
               Some (Inr (map (\<lambda>f. -1 * f * (capex - residual_value)) annual_depreciation)))"

subsection \<open>Cost correlations (lines 140-161)\<close>

text \<open>
  Python's \<open>int(x)\<close> on a float truncates toward zero.
\<close>

definition py_int :: "real \<Rightarrow> int" where
  "py_int x = (if 0 \<le> x then \<lfloor>x\<rfloor> else \<lceil>x\<rceil>)"

text \<open>
  \<open>boiler_formula\<close> is the value of the variable \<open>correlation\<close> at line 153, before
  \<open>int(...)\<close>. The power \<open>**\<close> is only applied to a production of at least 20000, where it
  is the real power \<open>powr\<close>.
\<close>

definition boiler_formula :: "real \<Rightarrow> real \<Rightarrow> real" where
  "boiler_formula valor_production pressure =
     (if valor_production < 20000 then 106000 + 8.7 * valor_production
      else if valor_production < 200000 then
        (if pressure < 15 then 110000 + 4.5 * valor_production powr 0.9
         else if pressure < 40 then 106000 + 8.7 * valor_production
         else 110000 + 4.5 * valor_production powr 0.9)
      else 110000 + 4.5 * valor_production powr 0.9)"

definition boiler_correlation :: "real \<Rightarrow> real \<Rightarrow> int" where
  "boiler_correlation valor_production pressure =
     py_int (boiler_formula valor_production pressure)"

subsection \<open>Capital factors and installed costs (lines 9-87)\<close>

text \<open>
  The data frame \<open>Capital_factors\<close>: one row per factor, one column per process phase
  (\<open>"D&E"\<close> is \<open>DE\<close>, \<open>"Fluids-Solids"\<close> is \<open>Fluids_Solids\<close>).
\<close>

datatype factor = fer | fp | fi | fel | fc | fs | fl | OS | DE | X

datatype phase = Fluids | Fluids_Solids | Solids

fun data_factors :: "factor \<Rightarrow> real \<times> real \<times> real" where
  "data_factors fer = (0.3, 0.5, 0.6)"
| "data_factors fp = (0.8, 0.6, 0.2)"
| "data_factors fi = (0.3, 0.3, 0.2)"
| "data_factors fel = (0.2, 0.2, 0.15)"
| "data_factors fc = (0.3, 0.3, 0.2)"
| "data_factors fs = (0.2, 0.2, 0.1)"
| "data_factors fl = (0.1, 0.1, 0.05)"
| "data_factors OS = (0.3, 0.4, 0.4)"
| "data_factors DE = (0.35, 0.25, 0.2)"
| "data_factors X = (0.1, 0.1, 0.1)"

fun Capital_factors :: "factor \<Rightarrow> phase \<Rightarrow> real" where
  "Capital_factors f Fluids = fst (data_factors f)"
| "Capital_factors f Fluids_Solids = fst (snd (data_factors f))"
| "Capital_factors f Solids = snd (snd (data_factors f))"

text \<open>
  The factor that \<open>boiler\<close>, \<open>pump\<close> and \<open>steam_turbine\<close> each multiply the bare cost by
  when \<open>installed\<close> is true (the same expression at lines 42-45, 62-65 and 82-85).
\<close>

definition installation_factor :: "real \<Rightarrow> real" where
  "installation_factor fm =
     (1 + Capital_factors fp Fluids) * fm
     + (Capital_factors fer Fluids + Capital_factors fel Fluids
        + Capital_factors fi Fluids + Capital_factors fc Fluids
        + Capital_factors fs Fluids + Capital_factors fl Fluids)"

text \<open>
  \<open>installed\<close> is an arbitrary Python value; \<open>type(installed) == bool\<close> holds exactly for
  \<open>PyBool\<close>. The printed warnings are returned as a list next to the cost.
\<close>

datatype py_value = PyBool bool | PyInt int | PyFloat real | PyStr string | PyNone

datatype warning = Boiler_vapor_production | Boiler_pressure | Pump_caudal | Turbine_power

text \<open>
  The turbine and pump formulas raise the size to a fractional power. For a negative size
  Python's \<open>**\<close> gives a complex number, and \<open>int\<close> of a complex number raises
  \<open>TypeError\<close>. The source's parameter \<open>power\<close> is \<open>shaft_power\<close> here.
\<close>

definition turbine_correlation :: "real \<Rightarrow> error + int" where
  "turbine_correlation shaft_power =
     (if shaft_power < 0 then Inl TypeError
      else Inr (py_int (-12000 + 1630 * shaft_power powr 0.75)))"

definition pump_correlation :: "real \<Rightarrow> error + int" where
  "pump_correlation caudal =
     (if caudal < 0 then Inl TypeError
      else Inr (py_int (6900 + 206 * caudal powr 0.9)))"

text \<open>\<open>C *= factor\<close> when installed, then \<open>int(C)\<close> (the identity on the integer \<open>C\<close>).\<close>

definition install :: "int \<Rightarrow> real \<Rightarrow> bool \<Rightarrow> int" where
  "install C fm installed =
     (if installed then py_int (real_of_int C * installation_factor fm) else C)"

definition boiler :: "real \<Rightarrow> real \<Rightarrow> real \<Rightarrow> py_value \<Rightarrow> error + warning list \<times> int" where
  "boiler Q p fm installed =
     (case installed of
        PyBool b \<Rightarrow>
          Inr ((if Q < 5000 \<or> Q > 800000 then [Boiler_vapor_production] else [])
               @ (if p < 10 \<or> p > 70 then [Boiler_pressure] else []),
               install (boiler_correlation Q p) fm b)
      | _ \<Rightarrow> Inl AssertionError)"

definition pump :: "real \<Rightarrow> real \<Rightarrow> py_value \<Rightarrow> error + warning list \<times> int" where
  "pump Q fm installed =
     (case installed of
        PyBool b \<Rightarrow>
          (case pump_correlation Q of
             Inl e \<Rightarrow> Inl e
           | Inr C \<Rightarrow> Inr (if Q < 0.2 \<or> Q > 126 then [Pump_caudal] else [], install C fm b))
      | _ \<Rightarrow> Inl AssertionError)"

definition steam_turbine :: "real \<Rightarrow> real \<Rightarrow> py_value \<Rightarrow> error + warning list \<times> int" where
  "steam_turbine kW fm installed =
     (case installed of
        PyBool b \<Rightarrow>
          (case turbine_correlation kW of
             Inl e \<Rightarrow> Inl e
           | Inr C \<Rightarrow> Inr (if kW < 100 \<or> kW > 20000 then [Turbine_power] else [], install C fm b))
      | _ \<Rightarrow> Inl AssertionError)"

subsection \<open>The run (lines 175-237 of \<open>execute\<close>)\<close>

text \<open>
  \<open>execute\<close> takes no argument: it sizes the plant, takes the loan and the depreciation
  series and assembles the ledger. The cost functions are called with their defaults
  \<open>fm = 1\<close> and \<open>installed = True\<close>; their warnings are printed and otherwise unused. The
  metrics, the printing, the plot and the spreadsheet after line 237 do not change the
  ledger and are left out. \<open>None\<close> is "does not return", as for \<open>depreciation\<close>.
\<close>

definition execute :: "(error + ledger) option" where
  "execute =
     (case boiler 10000 70 1 (PyBool True) of
        Inl e \<Rightarrow> Some (Inl e)
      | Inr (boiler_warnings, boiler_cost) \<Rightarrow>
     (case steam_turbine 1500 1 (PyBool True) of
        Inl e \<Rightarrow> Some (Inl e)
      | Inr (turbine_warnings, turbine) \<Rightarrow>
     (let condenser = 400000 * (10000 / 15000) powr 0.8 in
     (case pump 2.84 1 (PyBool True) of
        Inl e \<Rightarrow> Some (Inl e)
      | Inr (pump_warnings, pump_cost) \<Rightarrow>
     (let capex = real_of_int boiler_cost + real_of_int turbine + condenser
                  + real_of_int pump_cost;
          quantity = 0.6 * capex in
     (case loan quantity 0.04 10 of
        Inl e \<Rightarrow> Some (Inl e)
      | Inr (loan_payment, interest, principal_arr) \<Rightarrow>
     (case depreciation 0.07 capex 0 of
        None \<Rightarrow> None
      | Some (Inl e) \<Rightarrow> Some (Inl e)
      | Some (Inr dep_array) \<Rightarrow>
          Some (assemble_ledger capex interest principal_arr dep_array))))))))"


section \<open>Properties\<close>

subsection \<open>Payback\<close>

lemma payback_loop_negative_prefix:
  "(\<And>c. c \<in> set negs \<Longrightarrow> c < 0) \<Longrightarrow>
   payback_loop (negs @ rest) cnt = payback_loop rest (cnt + int (length negs))"
proof (induction negs arbitrary: cnt)
  case Nil
  show ?case by simp
next
  case (Cons c negs)
  have neg: "c < 0" using Cons.prems by simp
  have tail: "\<And>d. d \<in> set negs \<Longrightarrow> d < 0" using Cons.prems by simp
  show ?case
    using neg Cons.IH [OF tail, of "cnt + 1"] by (simp add: ac_simps)
qed

text \<open>
  C6. A cash-flow sequence that starts with any number of negative entries and then has
  a non-negative entry gives the 1-based position of that entry; the sequence
  \<open>[-100, -20, 30, 40]\<close> gives 3.
\<close>

theorem payback_first_nonnegative:
  "((\<forall>c \<in> set negs. c < 0) \<and> 0 \<le> x \<longrightarrow>
      payback (negs @ x # rest) = int (length negs) + 1) \<and>
   payback [-100, -20, 30, 40] = 3"
proof
  show "(\<forall>c \<in> set negs. c < 0) \<and> 0 \<le> x \<longrightarrow>
     payback (negs @ x # rest) = int (length negs) + 1"
  proof
    assume h: "(\<forall>c \<in> set negs. c < 0) \<and> 0 \<le> x"
    then have "payback_loop (negs @ x # rest) 1 = payback_loop (x # rest) (1 + int (length negs))"
      by (intro payback_loop_negative_prefix) simp
    with h show "payback (negs @ x # rest) = int (length negs) + 1"
      by (simp add: payback_def)
  qed
  show "payback [-100, -20, 30, 40] = 3"
    by (simp add: payback_def)
qed

theorem payback_first_nonnegative_witness:
  "(-5 :: real) < 0 \<and> (-1 :: real) < 0 \<and> (0::real) \<le> 0 \<and>
   payback ([-5, -1] @ 0 # [7, -2]) = 3"
  using payback_first_nonnegative [of "[-5, -1]" 0 "[7, -2]"] by simp

text \<open>
  C10. When every entry is negative the loop runs to the end and the result is the length
  of the sequence plus one; no error and no "never pays back" value is produced. The empty
  sequence gives 1.
\<close>

theorem payback_all_negative:
  "((\<forall>c \<in> set cash_flow. c < 0) \<longrightarrow> payback cash_flow = int (length cash_flow) + 1) \<and>
   payback [] = 1"
proof
  show "(\<forall>c \<in> set cash_flow. c < 0) \<longrightarrow> payback cash_flow = int (length cash_flow) + 1"
  proof
    assume h: "\<forall>c \<in> set cash_flow. c < 0"
    then have "payback_loop (cash_flow @ []) 1 = payback_loop [] (1 + int (length cash_flow))"
      by (intro payback_loop_negative_prefix) simp
    then show "payback cash_flow = int (length cash_flow) + 1"
      by (simp add: payback_def)
  qed
  show "payback [] = 1"
    by (simp add: payback_def)
qed

theorem payback_all_negative_witness:
  "(-3 :: real) < 0 \<and> (-2 :: real) < 0 \<and> (-8 :: real) < 0 \<and> payback [-3, -2, -8] = 4"
  using payback_all_negative [of "[-3, -2, -8]"] by simp

subsection \<open>Taxes and earnings in the ledger\<close>

text \<open>The clipping loop is a pointwise map: entry \<open>i\<close> is only touched in round \<open>i\<close>.\<close>

lemma clip_fold:
  "n \<le> length xs \<Longrightarrow>
   foldl clip_step xs [0..<n] = map (\<lambda>t. if t > 0 then 0 else t) (take n xs) @ drop n xs"
proof (induction n)
  case 0
  show ?case by simp
next
  case (Suc n)
  then have n: "n < length xs" by simp
  have "foldl clip_step xs [0..<Suc n] = clip_step (foldl clip_step xs [0..<n]) n"
    by simp
  also have "\<dots> = clip_step (map (\<lambda>t. if t > 0 then 0 else t) (take n xs) @ drop n xs) n"
    using Suc.IH n by simp
  also have "\<dots> = map (\<lambda>t. if t > 0 then 0 else t) (take (Suc n) xs) @ drop (Suc n) xs"
    using n
    by (simp add: clip_step_def nth_append take_Suc_conv_app_nth list_update_append
        Cons_nth_drop_Suc [symmetric])
  finally show ?case .
qed

lemma taxes_of_map:
  "taxes_of ebt = map (\<lambda>e. if e * -0.3 > 0 then 0 else e * -0.3) ebt"
  by (simp add: taxes_of_def Let_def clip_fold o_def)



lemma taxes_of_length: "length (taxes_of ebt) = length ebt"
  by (simp add: taxes_of_map)

lemma taxes_of_nth:
  "i < length ebt \<Longrightarrow>
   taxes_of ebt ! i = (if ebt ! i * -0.3 > 0 then 0 else ebt ! i * -0.3)"
  by (simp add: taxes_of_map)

lemma sum_rows_nth:
  "i < n \<Longrightarrow> sum_rows rows n ! i = sum_list (map (\<lambda>row. row ! i) rows)"
  by (simp add: sum_rows_def)

lemma escalation_rows_year0_year1:
  "(case escalation_rows of (sales_array, water_array, salaries_array) \<Rightarrow>
      (sales_array ! 0, water_array ! 0, salaries_array ! 0,
       sales_array ! 1, water_array ! 1, salaries_array ! 1))
   = (0, 0, 0, sales, - water, - salaries)"
  by (simp add: escalation_rows_def years_def upt_rec)

lemma assemble_ledger_rows:
  assumes "assemble_ledger capex interest principal_arr dep_array = Inr L"
  shows "length (EBT L) = years"
    and "Taxes L = taxes_of (EBT L)"
    and "EAT L = map2 (-) (EBT L) (Taxes L)"
  using assms
  by (auto simp: assemble_ledger_def Let_def sum_rows_def split: prod.splits if_splits)

lemma assemble_ledger_returns:
  assumes "length interest < years" "length principal_arr < years" "length dep_array < years"
  shows "\<exists>L. assemble_ledger capex interest principal_arr dep_array = Inr L"
  using assms
  by (auto simp: assemble_ledger_def Let_def year_row_def split: prod.splits)

lemma assemble_ledger_ebt_year0_year1:
  assumes "assemble_ledger capex (i1 # interest) principal_arr (d1 # dep_array) = Inr L"
  shows "EBT L ! 0 = - capex * 0.4" and "EBT L ! 1 = d1 + i1 + sales - water - salaries"
proof -
  obtain sa wa sl where esc: "escalation_rows = (sa, wa, sl)"
    by (cases escalation_rows) auto
  have e: "sa ! 0 = 0" "wa ! 0 = 0" "sl ! 0 = 0" "sa ! 1 = sales" "wa ! 1 = - water"
    "sl ! 1 = - salaries"
    using escalation_rows_year0_year1 by (simp_all add: esc)
  have ebt: "EBT L = sum_rows [[-capex * 0.4] @ replicate (years - 1) 0,
      year_row (d1 # dep_array), year_row (i1 # interest), sa, wa, sl] years"
    using assms
    by (auto simp: assemble_ledger_def Let_def esc split: if_splits)
  show "EBT L ! 0 = - capex * 0.4"
    by (simp add: ebt sum_rows_nth years_def year_row_def e)
  show "EBT L ! 1 = d1 + i1 + sales - water - salaries"
    using e by (simp add: ebt sum_rows_nth years_def year_row_def)
qed

text \<open>
  A concrete run used below: capital cost 100000, a two-year loan and the 15-year
  depreciation series of rate 0.07. Year 0 is a loss (the investment draw), year 1 a profit.
\<close>

lemma example_ledger:
  "\<exists>L. assemble_ledger 100000 [-2400, -1224] [-29412, -30588]
          ((-7000) # replicate 13 (-7000) @ [-2000]) = Inr L
      \<and> EBT L ! 0 = -40000 \<and> EBT L ! 1 = 120196.4"
proof -
  obtain L where L: "assemble_ledger 100000 [-2400, -1224] [-29412, -30588]
          ((-7000) # replicate 13 (-7000) @ [-2000]) = Inr L"
    using assemble_ledger_returns [of "[-2400, -1224]" "[-29412, -30588]"
        "(-7000) # replicate 13 (-7000) @ [-2000]" 100000]
    by (auto simp: years_def)
  have "EBT L ! 0 = -40000" "EBT L ! 1 = 120196.4"
    using assemble_ledger_ebt_year0_year1 [OF L]
    by (simp_all add: sales_def water_def salaries_def capacity_factor_def)
  with L show ?thesis by blast
qed

subsection \<open>Depreciation\<close>

text \<open>
  With a positive rate the loop makes \<open>k\<close> full subtractions, where
  \<open>k \<cdot> d \<le> prev < (k + 1) \<cdot> d\<close>, and then emits the remainder.
\<close>

lemma depreciation_loop_steps:
  "0 < d \<Longrightarrow> real k * d \<le> prev \<Longrightarrow> prev < real (Suc k) * d \<Longrightarrow>
   depreciation_loop d prev acc = Some (acc @ replicate k d @ [prev - real k * d])"
proof (induction k arbitrary: prev acc)
  case 0
  then show ?case by (subst depreciation_loop.simps) simp
next
  case (Suc k)
  have ge: "\<not> prev < d"
  proof -
    have "d \<le> real (Suc k) * d" using Suc.prems(1) by (simp add: algebra_simps)
    then show ?thesis using Suc.prems(2) by linarith
  qed
  have a: "real k * d \<le> prev - d" using Suc.prems(2) by (simp add: algebra_simps)
  have b: "prev - d < real (Suc k) * d" using Suc.prems(3) by (simp add: algebra_simps)
  have "depreciation_loop d prev acc = depreciation_loop d (prev - d) (acc @ [d])"
    using ge by (subst depreciation_loop.simps) simp
  also have "\<dots> = Some ((acc @ [d]) @ replicate k d @ [prev - d - real k * d])"
    by (rule Suc.IH [OF Suc.prems(1) a b])
  finally show ?case by (simp add: algebra_simps)
qed

text \<open>With rate 0 the remaining fraction never changes and the exit test never holds.\<close>

lemma depreciation_loop_zero_rate:
  assumes "depreciation_loop d prev acc = Some ys"
  shows "\<not> (d = 0 \<and> 0 \<le> prev)"
  using assms
proof (induction rule: depreciation_loop.raw_induct [rotated 1, consumes 1, case_names step])
  case (step f d prev acc ys)
  show ?case
  proof
    assume h: "d = 0 \<and> 0 \<le> prev"
    then have "f d (prev - d) (acc @ [d]) = Some ys" using step(2) by simp
    then have "\<not> (d = 0 \<and> 0 \<le> prev - d)" by (rule step(1))
    with h show False by simp
  qed
qed

lemma depreciation_loop_returns:
  assumes "0 < d" "0 \<le> prev"
  shows "\<exists>k. real k * d \<le> prev \<and> prev < real (Suc k) * d \<and>
     depreciation_loop d prev acc = Some (acc @ replicate k d @ [prev - real k * d])"
proof -
  define k where "k = nat \<lfloor>prev / d\<rfloor>"
  have nn: "0 \<le> prev / d" using assms by simp
  then have rk: "real k = of_int \<lfloor>prev / d\<rfloor>" by (simp add: k_def)
  have "real k \<le> prev / d" by (simp add: rk)
  then have a: "real k * d \<le> prev" using assms(1) by (simp add: pos_le_divide_eq)
  have "prev / d < real k + 1" unfolding rk by linarith
  then have b: "prev < real (Suc k) * d" using assms(1) by (simp add: pos_divide_less_eq add.commute)
  show ?thesis using depreciation_loop_steps [OF assms(1) a b] a b by blast
qed

lemma depreciation_diverges_at_zero: "depreciation 0 capex residual_value = None"
proof -
  have "depreciation_loop 0 1 [] = None"
  proof (cases "depreciation_loop 0 1 []")
    case (Some ys)
    then show ?thesis using depreciation_loop_zero_rate [OF Some] by simp
  qed simp
  then show ?thesis by (simp add: depreciation_def)
qed

text \<open>The example of the specification: 14 entries of -7000 and a last entry of -2000.\<close>

lemma depreciation_spec_example:
  "depreciation 0.07 100000 0 = Some (Inr (replicate 14 (-7000) @ [-2000]))"
  using depreciation_loop_steps [of "0.07" 14 1 "[]"]
  by (simp add: depreciation_def)

lemma schedule_entries:
  "map (\<lambda>f. -1 * f * b) (replicate k d @ [1 - real k * d]) =
   replicate k (- (d * b)) @ [- ((1 - real k * d) * b)]"
  by simp

lemma schedule_sum:
  "sum_list (replicate k (- (d * b)) @ [- ((1 - real k * d) * b)]) = - b"
  by (simp add: sum_list_replicate algebra_simps)

lemma schedule_bound:
  assumes "0 < d" and "real k * d \<le> 1" and "i \<le> k"
  shows "\<bar>(replicate k (- (d * b)) @ [- ((1 - real k * d) * b)]) ! i\<bar>
      \<le> \<bar>b\<bar> - sum_list (map abs (take i (replicate k (- (d * b)) @ [- ((1 - real k * d) * b)])))"
proof -
  have prior: "sum_list (map abs (take i (replicate k (- (d * b)) @ [- ((1 - real k * d) * b)])))
      = real i * d * \<bar>b\<bar>"
    using assms(1,3) by (simp add: sum_list_replicate abs_mult min_def)
  show ?thesis
  proof (cases "i < k")
    case True
    then have "real (Suc i) * d \<le> real k * d"
      using assms(1) by (intro mult_right_mono) simp_all
    then have "d \<le> 1 - real i * d" using assms(2) by (simp add: algebra_simps)
    then have le: "d * \<bar>b\<bar> \<le> (1 - real i * d) * \<bar>b\<bar>"
      by (intro mult_right_mono) simp_all
    have entry: "\<bar>(replicate k (- (d * b)) @ [- ((1 - real k * d) * b)]) ! i\<bar> = d * \<bar>b\<bar>"
      using True assms(1) by (simp add: nth_append abs_mult)
    show ?thesis
      unfolding prior entry using le by (simp add: algebra_simps)
  next
    case False
    then have ik: "i = k" using assms(3) by simp
    have entry: "\<bar>(replicate k (- (d * b)) @ [- ((1 - real k * d) * b)]) ! i\<bar>
        = (1 - real k * d) * \<bar>b\<bar>"
      using ik assms(2) by (simp add: nth_append abs_mult)
    show ?thesis
      unfolding prior entry using ik by (simp add: algebra_simps)
  qed
qed

text \<open>
  C3. The claim is that the loop terminates for every rate in \<open>[0, 1]\<close>, the domain the
  assertion admits. It does for every rate in \<open>(0, 1]\<close>; at rate 0, which passes the
  assertion, the loop never leaves (\<open>depreciation 0 capex residual_value = None\<close>).
\<close>

theorem depreciation_returns_iff_rate_positive:
  "(0 < d \<and> d \<le> 1 \<longrightarrow> (\<exists>xs. depreciation d capex residual_value = Some (Inr xs))) \<and>
   depreciation 0 capex residual_value = None"
proof
  show "0 < d \<and> d \<le> 1 \<longrightarrow> (\<exists>xs. depreciation d capex residual_value = Some (Inr xs))"
  proof
    assume h: "0 < d \<and> d \<le> 1"
    then obtain k where "depreciation_loop d 1 [] = Some ([] @ replicate k d @ [1 - real k * d])"
      using depreciation_loop_returns [of d 1 "[]"] by auto
    with h show "\<exists>xs. depreciation d capex residual_value = Some (Inr xs)"
      by (simp add: depreciation_def)
  qed
  show "depreciation 0 capex residual_value = None"
    by (rule depreciation_diverges_at_zero)
qed

theorem depreciation_returns_iff_rate_positive_witness:
  "(0::real) < 0.07 \<and> (0.07::real) \<le> 1 \<and> (\<exists>xs. depreciation 0.07 100000 0 = Some (Inr xs))"
  using depreciation_returns_iff_rate_positive [of "0.07" 100000 0] by simp

text \<open>
  C4. For a rate in \<open>[0, 1]\<close> on which \<open>depreciation\<close> returns, the result is a series
  whose sum is \<open>-(capex - residual_value)\<close>, so its magnitude is that of the depreciable
  base, and the magnitude of each entry is at most the magnitude of the base minus the
  magnitudes of the entries before it (the base not yet written off).
\<close>

theorem depreciation_sum_and_bound:
  assumes "0 \<le> d" and "d \<le> 1" and "depreciation d capex residual_value = Some r"
  shows "\<exists>xs. r = Inr xs
      \<and> sum_list xs = - (capex - residual_value)
      \<and> \<bar>sum_list xs\<bar> = \<bar>capex - residual_value\<bar>
      \<and> (\<forall>i < length xs.
            \<bar>xs ! i\<bar> \<le> \<bar>capex - residual_value\<bar> - sum_list (map abs (take i xs)))"
proof -
  have "d \<noteq> 0" using assms(3) depreciation_diverges_at_zero by auto
  then have pos: "0 < d" using assms(1) by simp
  obtain k where k: "real k * d \<le> 1"
    and loop: "depreciation_loop d 1 [] = Some ([] @ replicate k d @ [1 - real k * d])"
    using depreciation_loop_returns [OF pos, of 1 "[]"] by auto
  define b where "b = capex - residual_value"
  define xs where "xs = replicate k (- (d * b)) @ [- ((1 - real k * d) * b)]"
  have r: "r = Inr xs"
    using assms loop by (simp add: depreciation_def xs_def b_def)
  have s: "sum_list xs = - b" unfolding xs_def by (rule schedule_sum)
  have "\<bar>xs ! i\<bar> \<le> \<bar>b\<bar> - sum_list (map abs (take i xs))" if "i < length xs" for i
  proof -
    have "i \<le> k" using that by (simp add: xs_def)
    then show ?thesis unfolding xs_def by (rule schedule_bound [OF pos k])
  qed
  with r s show ?thesis unfolding b_def by auto
qed

theorem depreciation_sum_and_bound_witness:
  "depreciation 0.07 100000 0 = Some (Inr (replicate 14 (-7000) @ [-2000])) \<and>
   sum_list (replicate 14 (-7000) @ [-2000 :: real]) = - (100000 - 0) \<and>
   \<bar>(replicate 14 (-7000) @ [-2000 :: real]) ! 14\<bar>
     \<le> \<bar>100000 - 0\<bar> - sum_list (map abs (take 14 (replicate 14 (-7000) @ [-2000])))"
proof -
  have ex: "depreciation 0.07 100000 0 = Some (Inr (replicate 14 (-7000) @ [-2000]))"
    by (rule depreciation_spec_example)
  have "(0::real) \<le> 0.07" "(0.07::real) \<le> 1" by simp_all
  from depreciation_sum_and_bound [OF this ex] ex show ?thesis by simp
qed


subsection \<open>Boiler correlation at its branch boundaries\<close>

lemma powr_09_le: "1 \<le> Q \<Longrightarrow> Q powr 0.9 \<le> (Q::real)"
  using powr_mono [of "0.9" 1 Q] by simp

lemma linear_isCont: "isCont (\<lambda>Q::real. 106000 + 8.7 * Q) a"
  by (intro continuous_intros)

lemma power_isCont: "0 < a \<Longrightarrow> isCont (\<lambda>Q::real. 110000 + 4.5 * Q powr 0.9) a"
  by (intro continuous_intros) simp_all

lemma boiler_continuous_20000:
  assumes "15 \<le> p" "p < 40"
  shows "isCont (\<lambda>Q. boiler_formula Q p) 20000"
proof -
  have eq: "\<And>Q. Q \<noteq> 20000 \<Longrightarrow> norm (Q - 20000) < 1 \<Longrightarrow>
      boiler_formula Q p = 106000 + 8.7 * Q"
    using assms by (auto simp: boiler_formula_def)
  have "(\<lambda>Q::real. 106000 + 8.7 * Q) \<midarrow>20000\<rightarrow> 106000 + 8.7 * 20000"
    using linear_isCont [of 20000] by (simp add: isCont_def)
  then have "(\<lambda>Q. boiler_formula Q p) \<midarrow>20000\<rightarrow> 106000 + 8.7 * 20000"
    using eq
    by (intro LIM_equal2 [where R = 1 and g = "\<lambda>Q. 106000 + 8.7 * Q"
          and f = "\<lambda>Q. boiler_formula Q p"]) simp_all
  moreover have "boiler_formula 20000 p = 106000 + 8.7 * 20000"
    using assms by (simp add: boiler_formula_def)
  ultimately show ?thesis by (simp add: isCont_def)
qed

lemma boiler_continuous_200000:
  assumes "p < 15 \<or> 40 \<le> p"
  shows "isCont (\<lambda>Q. boiler_formula Q p) 200000"
proof -
  have eq: "\<And>Q. Q \<noteq> 200000 \<Longrightarrow> norm (Q - 200000) < 1 \<Longrightarrow>
      boiler_formula Q p = 110000 + 4.5 * Q powr 0.9"
    using assms by (auto simp: boiler_formula_def)
  have "(\<lambda>Q::real. 110000 + 4.5 * Q powr 0.9) \<midarrow>200000\<rightarrow> 110000 + 4.5 * 200000 powr 0.9"
    using power_isCont [of 200000] by (simp add: isCont_def)
  then have "(\<lambda>Q. boiler_formula Q p) \<midarrow>200000\<rightarrow> 110000 + 4.5 * 200000 powr 0.9"
    using eq
    by (intro LIM_equal2 [where R = 1 and g = "\<lambda>Q. 110000 + 4.5 * Q powr 0.9"
          and f = "\<lambda>Q. boiler_formula Q p"]) simp_all
  moreover have "boiler_formula 200000 p = 110000 + 4.5 * 200000 powr 0.9"
    using assms by (simp add: boiler_formula_def)
  ultimately show ?thesis by (simp add: isCont_def)
qed

text \<open>A jump: just below the boundary the value is at least lo, at the boundary at most hi < lo.\<close>

lemma jump_not_isCont:
  fixes f :: "real \<Rightarrow> real"
  assumes below: "\<And>x. a - 1 < x \<Longrightarrow> x < a \<Longrightarrow> lo \<le> f x"
    and at: "f a \<le> hi" and gap: "hi < lo"
  shows "\<not> isCont f a"
proof
  assume "isCont f a"
  then have "f \<midarrow>a\<rightarrow> f a" by (simp add: isCont_def)
  then obtain s where s: "0 < s"
    and close: "\<And>x. x \<noteq> a \<Longrightarrow> norm (x - a) < s \<Longrightarrow> norm (f x - f a) < lo - hi"
    using gap unfolding LIM_eq by (metis diff_gt_0_iff_gt)
  define x where "x = a - min s 1 / 2"
  have x: "a - 1 < x" "x < a" "norm (x - a) < s" "x \<noteq> a"
    using s by (auto simp: x_def min_def)
  have "norm (f x - f a) < lo - hi" using close x by blast
  moreover have "lo - hi \<le> f x - f a" using below [OF x(1,2)] at by simp
  ultimately show False by simp
qed

lemma boiler_jump_20000:
  assumes "p < 15 \<or> 40 \<le> p"
  shows "\<not> isCont (\<lambda>Q. boiler_formula Q p) 20000"
proof (rule jump_not_isCont [where lo = 270000 and hi = 200000])
  fix x :: real assume "20000 - 1 < x" "x < 20000"
  then show "270000 \<le> boiler_formula x p" by (simp add: boiler_formula_def)
next
  show "boiler_formula 20000 p \<le> 200000"
    using assms powr_09_le [of 20000] by (auto simp: boiler_formula_def)
qed simp

lemma boiler_jump_200000:
  assumes "15 \<le> p" "p < 40"
  shows "\<not> isCont (\<lambda>Q. boiler_formula Q p) 200000"
proof (rule jump_not_isCont [where lo = 1800000 and hi = 1010000])
  fix x :: real assume "200000 - 1 < x" "x < 200000"
  then show "1800000 \<le> boiler_formula x p" using assms by (simp add: boiler_formula_def)
next
  show "boiler_formula 200000 p \<le> 1010000"
    using powr_09_le [of 200000] by (simp add: boiler_formula_def)
qed simp

lemma boiler_correlation_19999: "boiler_correlation 19999 10 = 279991"
  by (simp add: boiler_correlation_def boiler_formula_def py_int_def)

lemma boiler_correlation_20000: "boiler_correlation 20000 10 \<le> 200000"
proof -
  have "boiler_formula 20000 10 \<le> 200000"
    using powr_09_le [of 20000] by (simp add: boiler_formula_def)
  moreover have "0 \<le> boiler_formula 20000 10" by (simp add: boiler_formula_def)
  ultimately show ?thesis
    by (simp add: boiler_correlation_def py_int_def floor_le_iff)
qed


text \<open>
  C5 as stated (for every pressure the formulas on both sides of \<open>Q = 20000\<close> agree there)
  fails: at pressure 10 the formula below the boundary tends to 280000 while the formula
  at the boundary gives at most 200000, so the correlation is not continuous in \<open>Q\<close>; the
  cost drops from 279991 at \<open>Q = 19999\<close> to at most 200000 at \<open>Q = 20000\<close>.
\<close>

theorem boiler_discontinuous_counterexample:
  "\<not> isCont (\<lambda>Q. boiler_formula Q 10) 20000 \<and>
   boiler_correlation 19999 10 = 279991 \<and> boiler_correlation 20000 10 \<le> 200000"
  using boiler_jump_20000 [of 10] boiler_correlation_19999 boiler_correlation_20000 by simp

text \<open>
  C5, amended. The formula is continuous in \<open>Q\<close> at \<open>Q = 20000\<close> exactly for pressures
  \<open>15 \<le> p < 40\<close> (the linear formula on both sides), and at \<open>Q = 200000\<close> exactly for
  \<open>p < 15\<close> or \<open>p \<ge> 40\<close> (the power formula on both sides); at the other combinations
  it jumps.
\<close>

theorem boiler_continuity_by_pressure:
  "(15 \<le> p \<and> p < 40 \<longrightarrow>
      isCont (\<lambda>Q. boiler_formula Q p) 20000 \<and> \<not> isCont (\<lambda>Q. boiler_formula Q p) 200000) \<and>
   (p < 15 \<or> 40 \<le> p \<longrightarrow>
      isCont (\<lambda>Q. boiler_formula Q p) 200000 \<and> \<not> isCont (\<lambda>Q. boiler_formula Q p) 20000)"
  using boiler_continuous_20000 [of p] boiler_jump_200000 [of p]
    boiler_continuous_200000 [of p] boiler_jump_20000 [of p]
  by blast

theorem boiler_continuity_by_pressure_witness:
  "isCont (\<lambda>Q. boiler_formula Q 20) 20000 \<and> \<not> isCont (\<lambda>Q. boiler_formula Q 20) 200000 \<and>
   isCont (\<lambda>Q. boiler_formula Q 10) 200000 \<and> \<not> isCont (\<lambda>Q. boiler_formula Q 10) 20000"
  using boiler_continuity_by_pressure [of 20] boiler_continuity_by_pressure [of 10] by simp

subsection \<open>Installed costs\<close>

text \<open>The boiler of \<open>execute\<close>: 193000 bare, 617600 installed.\<close>

lemma spec_boiler_example: "boiler 10000 70 1 (PyBool False) = Inr ([], 193000)"
  by (simp add: boiler_def install_def boiler_correlation_def boiler_formula_def py_int_def)

lemma boiler_execute_example: "boiler 10000 70 1 (PyBool True) = Inr ([], 617600)"
  by (simp add: boiler_def install_def boiler_correlation_def boiler_formula_def py_int_def
      installation_factor_def)


subsection \<open>Loan\<close>

text \<open>
  The balance after \<open>n\<close> payments in closed form; with the annuity payment it is zero
  after the last period, and each principal payment is the change of the balance.
\<close>

lemma balance_closed:
  "rate \<noteq> 0 \<Longrightarrow>
   balance rate payment pv n = pv * (1 + rate) ^ n + payment * ((1 + rate) ^ n - 1) / rate"
proof (induction n)
  case 0
  show ?case by simp
next
  case (Suc n)
  have "balance rate payment pv (Suc n) =
      (pv * (1 + rate) ^ n + payment * ((1 + rate) ^ n - 1) / rate) * (1 + rate) + payment"
    using Suc by simp
  also have "\<dots> = pv * (1 + rate) ^ Suc n + payment * ((1 + rate) ^ Suc n - 1) / rate"
    using Suc.prems by (simp add: field_simps)
  finally show ?case .
qed

lemma balance_zero_rate: "balance 0 payment pv n = pv + real n * payment"
  by (induction n) (simp_all add: algebra_simps)

lemma balance_paid_off:
  assumes "0 \<le> rate" and "0 < n"
  shows "balance rate (pmt rate n pv) pv n = 0"
proof (cases "rate = 0")
  case True
  then show ?thesis using assms(2) by (simp add: balance_zero_rate pmt_def)
next
  case False
  then have pos: "0 < rate" using assms(1) by simp
  have "1 < (1 + rate) ^ n"
    using pos assms(2) by (intro one_less_power) simp_all
  then have nz: "(1 + rate) ^ n - 1 \<noteq> 0" by simp
  show ?thesis
    using False nz by (simp add: balance_closed pmt_def field_simps)
qed

lemma ppmt_is_balance_step:
  "0 < per \<Longrightarrow>
   ppmt rate per nper pv =
     balance rate (pmt rate nper pv) pv per - balance rate (pmt rate nper pv) pv (per - 1)"
  by (cases per) (simp_all add: ppmt_def ipmt_def algebra_simps)

lemma ppmt_sum:
  "sum_list (map (\<lambda>per. ppmt rate per nper pv) [1..<Suc n]) =
   balance rate (pmt rate nper pv) pv n - pv"
proof (induction n)
  case 0
  show ?case by simp
next
  case (Suc n)
  have "sum_list (map (\<lambda>per. ppmt rate per nper pv) [1..<Suc (Suc n)]) =
      sum_list (map (\<lambda>per. ppmt rate per nper pv) [1..<Suc n]) + ppmt rate (Suc n) nper pv"
    by simp
  also have "\<dots> = balance rate (pmt rate nper pv) pv n - pv + ppmt rate (Suc n) nper pv"
    by (simp only: Suc.IH)
  also have "\<dots> = balance rate (pmt rate nper pv) pv (Suc n) - pv"
    by (simp add: ppmt_is_balance_step)
  finally show ?case .
qed

text \<open>
  C2, amended. For every valid loan input the principal series has one entry per year and
  sums to minus the quantity: the entries are payments, signed negative, and their
  magnitudes add up to the principal. (Exact arithmetic stands for "up to floating-point
  tolerance".)
\<close>

theorem loan_principal_sums_to_minus_quantity:
  assumes "quantity > 0" and "0 \<le> interest" and "interest \<le> 1" and "term_years > 1"
  shows "\<exists>loan_payment loan_interest loan_principal.
      loan quantity interest term_years = Inr (loan_payment, loan_interest, loan_principal)
      \<and> length loan_principal = nat term_years
      \<and> sum_list loan_principal = - quantity"
proof -
  have n: "0 < nat term_years" using assms(4) by simp
  have "sum_list (map (\<lambda>per. ppmt interest per (nat term_years) quantity)
          [1..<Suc (nat term_years)]) = - quantity"
    by (simp only: ppmt_sum balance_paid_off [OF assms(2) n] diff_0)
  then show ?thesis
    using assms by (simp add: loan_def Let_def)
qed

text \<open>An interest-free loan of 100 over two years: two principal payments of -50.\<close>

lemma loan_example: "loan 100 0 2 = Inr (-50, [0, 0], [-50, -50])"
  by (simp add: loan_def Let_def pmt_def ipmt_def ppmt_def upt_rec)

text \<open>
  C2 as stated (the sum of the principal series equals the quantity) fails by the sign:
  for \<open>loan(100, 0, 2)\<close> the series is \<open>[-50, -50]\<close>, whose sum is -100, not 100.
\<close>

theorem loan_principal_sum_counterexample:
  "loan 100 0 2 = Inr (-50, [0, 0], [-50, -50]) \<and> sum_list [-50, -50 :: real] \<noteq> 100"
  using loan_example by simp

theorem loan_principal_sums_to_minus_quantity_witness:
  "loan 100 0 2 = Inr (-50, [0, 0], [-50, -50]) \<and> sum_list [-50, -50 :: real] = - 100"
  using loan_principal_sums_to_minus_quantity [of 100 0 2] loan_example by simp



subsection \<open>Rejected parameters\<close>

text \<open>A negative capital cost passes the only assertion of \<open>depreciation\<close>.\<close>

lemma depreciation_negative_capex:
  "depreciation 0.5 (-100) 0 = Some (Inr [50, 50, 0])"
  using depreciation_loop_steps [of "0.5" 2 1 "[]"]
  by (simp add: depreciation_def numeral_2_eq_2)

text \<open>
  C8 as stated (in particular: \<open>depreciation\<close> rejects a negative capex) fails:
  \<open>depreciation(0.5, -100)\<close> is not rejected, it returns the series \<open>[50, 50, 0]\<close>.
\<close>

theorem negative_capex_accepted_counterexample:
  "depreciation 0.5 (-100) 0 = Some (Inr [50, 50, 0]) \<and>
   depreciation 0.5 (-100) 0 \<noteq> Some (Inl AssertionError)"
  using depreciation_negative_capex by simp

text \<open>
  C8, amended. Each operation that has a precondition fails with a precondition violation
  exactly on the parameters its assertion names, and does so by its leading assertion,
  before anything is computed or printed: \<open>loan\<close> exactly when the quantity is not
  positive, the rate is outside \<open>[0, 1]\<close> or the term is \<open>\<le> 1\<close>; \<open>depreciation\<close> exactly
  when the rate is outside \<open>[0, 1]\<close>, whatever the capex and the residual value are (a
  negative capex is accepted); \<open>boiler\<close>, \<open>pump\<close> and \<open>steam_turbine\<close> exactly when the
  \<open>installed\<close> flag is not a boolean, whatever the sizes, the pressure and the material
  factor are.
\<close>

theorem invalid_parameters_rejected:
  "(loan quantity interest term_years = Inl AssertionError \<longleftrightarrow>
      (\<not> quantity > 0 \<or> interest < 0 \<or> interest > 1 \<or> \<not> term_years > 1)) \<and>
   (depreciation annual_percent capex residual_value = Some (Inl AssertionError) \<longleftrightarrow>
      (annual_percent < 0 \<or> annual_percent > 1)) \<and>
   (boiler Q p fm installed = Inl AssertionError \<longleftrightarrow> (\<forall>b. installed \<noteq> PyBool b)) \<and>
   (pump caudal fm installed = Inl AssertionError \<longleftrightarrow> (\<forall>b. installed \<noteq> PyBool b)) \<and>
   (steam_turbine kW fm installed = Inl AssertionError \<longleftrightarrow> (\<forall>b. installed \<noteq> PyBool b))"
proof (intro conjI)
  show "loan quantity interest term_years = Inl AssertionError \<longleftrightarrow>
      (\<not> quantity > 0 \<or> interest < 0 \<or> interest > 1 \<or> \<not> term_years > 1)"
    by (auto simp: loan_def Let_def)
  show "depreciation annual_percent capex residual_value = Some (Inl AssertionError) \<longleftrightarrow>
      (annual_percent < 0 \<or> annual_percent > 1)"
    by (auto simp: depreciation_def split: option.splits)
  show "boiler Q p fm installed = Inl AssertionError \<longleftrightarrow> (\<forall>b. installed \<noteq> PyBool b)"
    by (cases installed) (auto simp: boiler_def)
  show "pump caudal fm installed = Inl AssertionError \<longleftrightarrow> (\<forall>b. installed \<noteq> PyBool b)"
    by (cases installed) (auto simp: pump_def pump_correlation_def)
  show "steam_turbine kW fm installed = Inl AssertionError \<longleftrightarrow> (\<forall>b. installed \<noteq> PyBool b)"
    by (cases installed) (auto simp: steam_turbine_def turbine_correlation_def)
qed

theorem invalid_parameters_rejected_witness:
  "loan (-5) 0.04 10 = Inl AssertionError \<and>
   depreciation 1.5 100000 0 = Some (Inl AssertionError) \<and>
   boiler 10000 70 1 (PyInt 1) = Inl AssertionError \<and>
   pump 2.84 1 (PyInt 1) = Inl AssertionError \<and>
   steam_turbine 1500 1 (PyInt 1) = Inl AssertionError \<and>
   loan 100000 0.04 10 \<noteq> Inl AssertionError \<and>
   depreciation 0.07 (-100000) (-5) \<noteq> Some (Inl AssertionError) \<and>
   boiler (-1) (-1) (-1) (PyBool False) \<noteq> Inl AssertionError \<and>
   pump (-1) (-1) (PyBool False) \<noteq> Inl AssertionError \<and>
   steam_turbine (-1) (-1) (PyBool False) \<noteq> Inl AssertionError"
  using invalid_parameters_rejected [of "-5" "0.04" 10 "1.5" 100000 0 10000 70 1 "PyInt 1" "2.84" 1500]
    invalid_parameters_rejected [of 100000 "0.04" 10 "0.07" "-100000" "-5" "-1" "-1" "-1" "PyBool False" "-1" "-1"]
  by auto

subsection \<open>The run of \<open>execute\<close>\<close>

text \<open>
  The run returns a ledger: the three costs are not negative and the boiler costs 617600,
  so the capital cost is positive and the loan assertions hold; the loan has 10 periods
  and the depreciation at rate 0.07 has 15 entries, so every row has 20 entries.
\<close>

lemma py_int_nonneg: "0 \<le> x \<Longrightarrow> 0 \<le> py_int x"
  by (simp add: py_int_def)

lemma install_nonneg: "0 \<le> C \<Longrightarrow> 0 \<le> install C 1 True"
  by (simp add: install_def installation_factor_def py_int_nonneg)

lemma steam_turbine_execute:
  "\<exists>turbine. 0 \<le> turbine \<and> steam_turbine 1500 1 (PyBool True) = Inr ([], turbine)"
proof -
  have "sqrt 1500 \<le> 1500 powr 0.75"
    using powr_mono [of "1/2" "0.75" "1500::real"] by (simp add: powr_half_sqrt)
  moreover have "8 \<le> sqrt 1500"
    using real_sqrt_le_mono [of 64 1500] by simp
  ultimately have "0 \<le> -12000 + 1630 * (1500::real) powr 0.75" by simp
  then have "0 \<le> py_int (-12000 + 1630 * 1500 powr 0.75)" by (rule py_int_nonneg)
  then show ?thesis
    by (simp add: steam_turbine_def turbine_correlation_def install_nonneg)
qed

lemma pump_execute:
  "\<exists>pump_cost. 0 \<le> pump_cost \<and> pump 2.84 1 (PyBool True) = Inr ([], pump_cost)"
proof -
  have "0 \<le> 6900 + 206 * (2.84::real) powr 0.9" by simp
  then have "0 \<le> py_int (6900 + 206 * 2.84 powr 0.9)" by (rule py_int_nonneg)
  then show ?thesis
    by (simp add: pump_def pump_correlation_def install_nonneg)
qed

lemma assemble_ledger_ebt_year0:
  assumes "assemble_ledger capex interest principal_arr dep_array = Inr L"
  shows "EBT L ! 0 = - capex * 0.4"
proof -
  obtain sa wa sl where esc: "escalation_rows = (sa, wa, sl)"
    by (cases escalation_rows) auto
  have e: "sa ! 0 = 0" "wa ! 0 = 0" "sl ! 0 = 0"
    using escalation_rows_year0_year1 by (simp_all add: esc)
  have ebt: "EBT L = sum_rows [[-capex * 0.4] @ replicate (years - 1) 0,
      year_row dep_array, year_row interest, sa, wa, sl] years"
    using assms
    by (auto simp: assemble_ledger_def Let_def esc split: if_splits)
  show ?thesis
    by (simp add: ebt sum_rows_nth years_def year_row_def e)
qed

lemma loan_returns:
  assumes "0 < quantity"
  shows "\<exists>loan_payment interest principal_arr.
     loan quantity 0.04 10 = Inr (loan_payment, interest, principal_arr)
     \<and> length interest = 10 \<and> length principal_arr = 10"
  using assms by (simp add: loan_def Let_def)

lemma depreciation_7_percent:
  "depreciation 0.07 capex 0 = Some (Inr (replicate 14 (- (0.07 * capex)) @ [- (0.02 * capex)]))"
  using depreciation_loop_steps [of "0.07" 14 1 "[]"]
  by (simp add: depreciation_def)

lemma execute_returns:
  "\<exists>capex interest principal_arr dep_array L.
     0 < capex \<and> execute = Some (Inr L)
     \<and> assemble_ledger capex interest principal_arr dep_array = Inr L"
proof -
  obtain turbine where t: "0 \<le> turbine" "steam_turbine 1500 1 (PyBool True) = Inr ([], turbine)"
    using steam_turbine_execute by blast
  obtain pump_cost where p: "0 \<le> pump_cost" "pump 2.84 1 (PyBool True) = Inr ([], pump_cost)"
    using pump_execute by blast
  define capex where "capex = real_of_int 617600 + real_of_int turbine
      + 400000 * (10000 / 15000) powr 0.8 + real_of_int pump_cost"
  have c: "0 \<le> 400000 * ((10000::real) / 15000) powr 0.8" by simp
  have "0 \<le> real_of_int turbine" "0 \<le> real_of_int pump_cost" using t(1) p(1) by simp_all
  then have pos: "0 < capex" unfolding capex_def using c by linarith
  then have "0 < 0.6 * capex" by simp
  then obtain loan_payment interest principal_arr
    where l: "loan (0.6 * capex) 0.04 10 = Inr (loan_payment, interest, principal_arr)"
      and len: "length interest = 10" "length principal_arr = 10"
    using loan_returns by blast
  define dep_array where "dep_array = replicate 14 (- (0.07 * capex)) @ [- (0.02 * capex)]"
  have d: "depreciation 0.07 capex 0 = Some (Inr dep_array)"
    unfolding dep_array_def by (rule depreciation_7_percent)
  obtain L where L: "assemble_ledger capex interest principal_arr dep_array = Inr L"
    using assemble_ledger_returns [of interest principal_arr dep_array capex] len
    by (auto simp: years_def dep_array_def)
  have "execute = Some (assemble_ledger capex interest principal_arr dep_array)"
    by (simp only: execute_def boiler_execute_example t(2) p(2) Let_def sum.case prod.case
        option.case capex_def [symmetric] l d)
  with pos L show ?thesis by (intro exI [of _ capex] exI [of _ interest]
        exI [of _ principal_arr] exI [of _ dep_array] exI [of _ L]) simp
qed

subsection \<open>Taxes and earnings: the statements\<close>

text \<open>
  C1 as stated (Taxes is \<open>-0.3 \<cdot> EBT\<close>, clipped to zero whenever EBT is positive) fails in
  both directions. In year 0 of the run of \<open>execute\<close> EBT is negative and the Taxes entry
  is 0, not \<open>-0.3 \<cdot> EBT\<close>; in year 1 of the example ledger EBT is positive and the Taxes
  entry is \<open>-0.3 \<cdot> EBT\<close>, not zero.
\<close>

theorem taxes_clipped_when_ebt_positive_counterexample:
  "(\<exists>L. execute = Some (Inr L) \<and> EBT L ! 0 < 0 \<and> Taxes L ! 0 = 0
        \<and> Taxes L ! 0 \<noteq> -0.3 * EBT L ! 0) \<and>
   (\<exists>L. assemble_ledger 100000 [-2400, -1224] [-29412, -30588]
          ((-7000) # replicate 13 (-7000) @ [-2000]) = Inr L
        \<and> 0 < EBT L ! 1 \<and> Taxes L ! 1 = -36058.92 \<and> Taxes L ! 1 \<noteq> 0)"
proof
  obtain capex interest principal_arr dep_array L
    where pos: "0 < capex" and ex: "execute = Some (Inr L)"
      and L: "assemble_ledger capex interest principal_arr dep_array = Inr L"
    using execute_returns by blast
  have e: "EBT L ! 0 < 0" using assemble_ledger_ebt_year0 [OF L] pos by simp
  have "Taxes L ! 0 = 0"
    using assemble_ledger_rows(1,2) [OF L] e
    by (simp add: taxes_of_nth years_def mult_less_0_iff)
  with ex e show "\<exists>L. execute = Some (Inr L) \<and> EBT L ! 0 < 0 \<and> Taxes L ! 0 = 0
        \<and> Taxes L ! 0 \<noteq> -0.3 * EBT L ! 0"
    by auto
next
  obtain L where L: "assemble_ledger 100000 [-2400, -1224] [-29412, -30588]
          ((-7000) # replicate 13 (-7000) @ [-2000]) = Inr L"
    and e: "EBT L ! 1 = 120196.4"
    using example_ledger by blast
  have "Taxes L ! 1 = -36058.92"
    using assemble_ledger_rows(1,2) [OF L] e by (simp add: taxes_of_nth years_def)
  with L e show "\<exists>L. assemble_ledger 100000 [-2400, -1224] [-29412, -30588]
          ((-7000) # replicate 13 (-7000) @ [-2000]) = Inr L
        \<and> 0 < EBT L ! 1 \<and> Taxes L ! 1 = -36058.92 \<and> Taxes L ! 1 \<noteq> 0"
    by auto
qed

text \<open>
  C1, amended. In every year of the assembled ledger the Taxes entry is \<open>-0.3 \<cdot> EBT\<close>
  when EBT is not negative, and is clipped to zero when EBT is negative (the loop of lines
  229-231 tests \<open>taxes[i] > 0\<close>, which is \<open>EBT < 0\<close>); so the entry is never positive.
\<close>

theorem taxes_clipped_in_loss_years:
  assumes "assemble_ledger capex interest principal_arr dep_array = Inr L"
    and "i < years"
  shows "Taxes L ! i = (if EBT L ! i < 0 then 0 else -0.3 * EBT L ! i) \<and> Taxes L ! i \<le> 0"
proof -
  have i: "i < length (EBT L)"
    using assemble_ledger_rows(1) [OF assms(1)] assms(2) by simp
  have "Taxes L ! i = (if EBT L ! i * -0.3 > 0 then 0 else EBT L ! i * -0.3)"
    using assemble_ledger_rows(2) [OF assms(1)] i by (simp add: taxes_of_nth)
  then show ?thesis
    by (auto simp: mult_less_0_iff zero_less_mult_iff not_less)
qed

theorem taxes_clipped_in_loss_years_witness:
  "\<exists>L. assemble_ledger 100000 [-2400, -1224] [-29412, -30588]
          ((-7000) # replicate 13 (-7000) @ [-2000]) = Inr L
      \<and> EBT L ! 0 = -40000 \<and> Taxes L ! 0 = 0
      \<and> EBT L ! 1 = 120196.4 \<and> Taxes L ! 1 = -36058.92"
proof -
  obtain L where L: "assemble_ledger 100000 [-2400, -1224] [-29412, -30588]
          ((-7000) # replicate 13 (-7000) @ [-2000]) = Inr L"
    and e: "EBT L ! 0 = -40000" "EBT L ! 1 = 120196.4"
    using example_ledger by blast
  have "Taxes L ! 0 = 0" "Taxes L ! 1 = -36058.92"
    using taxes_clipped_in_loss_years [OF L, of 0] taxes_clipped_in_loss_years [OF L, of 1] e
    by (simp_all add: years_def)
  with L e show ?thesis by blast
qed

text \<open>
  C7. The Taxes row of the assembled ledger has one entry per year of the horizon and
  every entry is \<open>\<le> 0\<close>.
\<close>

theorem taxes_row_nonpositive:
  assumes "assemble_ledger capex interest principal_arr dep_array = Inr L"
  shows "length (Taxes L) = years \<and> (\<forall>i < years. Taxes L ! i \<le> 0)"
proof -
  have len: "length (EBT L) = years" and tx: "Taxes L = taxes_of (EBT L)"
    using assemble_ledger_rows [OF assms] by simp_all
  have "Taxes L ! i \<le> 0" if "i < years" for i
    using that len by (simp add: tx taxes_of_nth)
  then show ?thesis
    by (simp add: tx taxes_of_length len)
qed

theorem taxes_row_nonpositive_witness:
  "\<exists>L. execute = Some (Inr L) \<and> length (Taxes L) = 20 \<and> (\<forall>i < 20. Taxes L ! i \<le> 0)"
proof -
  obtain capex interest principal_arr dep_array L
    where ex: "execute = Some (Inr L)"
      and L: "assemble_ledger capex interest principal_arr dep_array = Inr L"
    using execute_returns by blast
  have "length (Taxes L) = 20 \<and> (\<forall>i < 20. Taxes L ! i \<le> 0)"
    using taxes_row_nonpositive [OF L] by (simp add: years_def)
  with ex show ?thesis by blast
qed

text \<open>
  C9. In a year with \<open>EBT \<ge> 0\<close> the Taxes entry is the unclipped \<open>-0.3 \<cdot> EBT\<close>, and
  \<open>EAT = EBT - Taxes = 1.3 \<cdot> EBT\<close>; when EBT is strictly positive, EAT is strictly
  larger than EBT.
\<close>

theorem eat_exceeds_ebt_in_profit_years:
  assumes "assemble_ledger capex interest principal_arr dep_array = Inr L"
    and "i < years" and "0 \<le> EBT L ! i"
  shows "Taxes L ! i = -0.3 * EBT L ! i \<and> EAT L ! i = 1.3 * EBT L ! i
     \<and> (0 < EBT L ! i \<longrightarrow> EBT L ! i < EAT L ! i)"
proof -
  have len: "length (EBT L) = years" and tx: "Taxes L = taxes_of (EBT L)"
    and eat: "EAT L = map2 (-) (EBT L) (Taxes L)"
    using assemble_ledger_rows [OF assms(1)] by simp_all
  have i: "i < length (EBT L)" using len assms(2) by simp
  have "\<not> EBT L ! i * -0.3 > 0"
    using assms(3) by (simp add: mult_le_0_iff not_less)
  then have t: "Taxes L ! i = -0.3 * EBT L ! i"
    using i by (simp add: tx taxes_of_nth)
  have "EAT L ! i = EBT L ! i - Taxes L ! i"
    using i by (simp add: eat tx taxes_of_length)
  then have e: "EAT L ! i = 1.3 * EBT L ! i"
    using t by simp
  show ?thesis
    using t e by simp
qed

theorem eat_exceeds_ebt_in_profit_years_witness:
  "\<exists>L. assemble_ledger 100000 [-2400, -1224] [-29412, -30588]
          ((-7000) # replicate 13 (-7000) @ [-2000]) = Inr L
      \<and> EBT L ! 1 = 120196.4 \<and> Taxes L ! 1 = -36058.92 \<and> EAT L ! 1 = 156255.32
      \<and> EBT L ! 1 < EAT L ! 1"
proof -
  obtain L where L: "assemble_ledger 100000 [-2400, -1224] [-29412, -30588]
          ((-7000) # replicate 13 (-7000) @ [-2000]) = Inr L"
    and e: "EBT L ! 1 = 120196.4"
    using example_ledger by blast
  have "Taxes L ! 1 = -36058.92 \<and> EAT L ! 1 = 156255.32 \<and> EBT L ! 1 < EAT L ! 1"
    using eat_exceeds_ebt_in_profit_years [OF L, of 1] e by (simp add: years_def)
  with L e show ?thesis by blast
qed

end
